theory Spec2Isabelle
  imports Main
begin

section \<open>Data model of the ReAct step engine (llama\_index/agent/v1/react.py)\<close>

text \<open>
  Every \<^verbatim>\<open>raise\<close> of the engine is a constructor here. The source raises plain Python
  exceptions; the constructor names are the kinds of the specification's error table:
  \<^item> \<open>AmbiguousToolSource\<close>: \<^verbatim>\<open>ValueError("Cannot specify both tools and tool_retriever")\<close>
  \<^item> \<open>EmptyModelOutput\<close>: \<^verbatim>\<open>ValueError("Got empty message.")\<close>
  \<^item> \<open>ReasoningParseError\<close>: \<^verbatim>\<open>ValueError("Could not parse output: ...")\<close>
  \<^item> \<open>UnexpectedStepType\<close>: \<^verbatim>\<open>ValueError("Expected ActionReasoningStep, got ...")\<close>
  \<^item> \<open>UnknownTool\<close>: the \<^verbatim>\<open>KeyError\<close> of \<^verbatim>\<open>tools_dict[reasoning_step.action]\<close>
  \<^item> \<open>ToolExecutionError\<close>: whatever \<^verbatim>\<open>tool.call\<close> or \<^verbatim>\<open>tool.acall\<close> raised
  \<^item> \<open>NoReasoningSteps\<close>: \<^verbatim>\<open>ValueError("No reasoning steps were taken.")\<close>
  \<^item> \<open>MaxIterationsReached\<close>: \<^verbatim>\<open>ValueError("Reached max iterations.")\<close>
  \<^item> \<open>UnsupportedStreaming\<close>: \<^verbatim>\<open>NotImplementedError\<close>
\<close>

datatype error =
    AmbiguousToolSource
  | EmptyModelOutput
  | ReasoningParseError
  | UnexpectedStepType
  | UnknownTool
  | ToolExecutionError string
  | NoReasoningSteps
  | MaxIterationsReached
  | UnsupportedStreaming

text \<open>
  The three reasoning step classes imported from \<^verbatim>\<open>llama_index.agent.react.types\<close>.
  The keyword arguments of an action are an association list.
\<close>

datatype reasoning_step =
    is_ActionReasoningStep: ActionReasoningStep (thought: string) (action: string)
      (action_input: "(string \<times> string) list")
  | is_ObservationReasoningStep: ObservationReasoningStep (observation: string)
  | is_ResponseReasoningStep: ResponseReasoningStep (thought: string) (response: string)

text \<open>
  Modelled from the spec: the property \<^verbatim>\<open>is_done\<close> of the step classes is declared outside
  the engine's file. The specification has one boolean flag, "is terminal", that is true of
  the \<open>Response\<close> variant and false of \<open>Action\<close> and \<open>Observation\<close>.
\<close>

fun is_done :: "reasoning_step \<Rightarrow> bool" where
  "is_done (ActionReasoningStep th a ai) = False"
| "is_done (ObservationReasoningStep ob) = False"
| "is_done (ResponseReasoningStep th r) = True"

text \<open>
  Modelled from the spec: \<^verbatim>\<open>ToolOutput\<close> is an opaque result of one tool call with a
  string rendering (\<^verbatim>\<open>str(tool_output)\<close>), here the function \<open>str\<close>.
\<close>

datatype tool_output = ToolOutput (str: string)

text \<open>
  Modelled from the spec: a tool is \<^verbatim>\<open>{name: string, call(kwargs), acall(kwargs)}\<close>. Both
  \<^verbatim>\<open>tool.metadata.get_name()\<close> (blocking form) and \<^verbatim>\<open>tool.metadata.name\<close> (suspending
  form) read the field \<open>name\<close>. A call either raises (\<open>Inl\<close>, the message of the
  exception) or returns a tool output.
\<close>

record tool =
  name :: string
  call :: "(string \<times> string) list \<Rightarrow> string + tool_output"
  acall :: "(string \<times> string) list \<Rightarrow> string + tool_output"

datatype message_role = SYSTEM | USER | ASSISTANT | FUNCTION

record chat_message =
  role :: message_role
  content :: "string option"

record chat_response =
  message :: chat_message

record agent_chat_response =
  response_str :: string
  response_sources :: "tool_output list"

record task =
  task_id :: string
  input :: string

record task_step =
  step_task_id :: string
  step_id :: string
  step_input :: "string option"

record task_step_output =
  step_output :: agent_chat_response
  task_step :: task_step
  is_last :: bool
  next_steps :: "task_step list"

text \<open>
  The objects every step of one task shares by reference: the two lists of
  \<^verbatim>\<open>step.step_state\<close> and the conversational memory \<^verbatim>\<open>step.memory\<close>. The engine mutates
  them in place, so each operation below takes the shared state and returns it updated,
  also when it raises.
\<close>

record shared_state =
  sources :: "tool_output list"
  current_reasoning :: "reasoning_step list"
  memory :: "chat_message list"

text \<open>
  The engine object after \<^verbatim>\<open>__init__\<close>. The collaborators are fields: the model
  (\<^verbatim>\<open>chat\<close> and \<^verbatim>\<open>achat\<close>), the prompt formatter, the output parser (\<open>None\<close> when it
  raises), the closure \<^verbatim>\<open>_get_tools\<close>, and the rendering \<^verbatim>\<open>get_content\<close> of a reasoning
  step, which is declared with the step classes.
\<close>

record engine =
  llm_chat :: "chat_message list \<Rightarrow> chat_response"
  llm_achat :: "chat_message list \<Rightarrow> chat_response"
  max_iterations :: int
  react_chat_formatter ::
    "tool list \<Rightarrow> chat_message list \<Rightarrow> reasoning_step list \<Rightarrow> chat_message list"
  output_parser :: "string \<Rightarrow> bool \<Rightarrow> reasoning_step option"
  get_tools_closure :: "string \<Rightarrow> tool list"
  get_content :: "reasoning_step \<Rightarrow> string"

section \<open>Construction and tool resolution\<close>

text \<open>
  \<^verbatim>\<open>__init__\<close>, lines 68 to 83. The argument \<^verbatim>\<open>tools\<close> is mandatory (a sequence, possibly
  empty); \<^verbatim>\<open>tool_retriever\<close> is optional.
\<close>

definition init ::
  "tool list \<Rightarrow> (chat_message list \<Rightarrow> chat_response) \<Rightarrow> (chat_message list \<Rightarrow> chat_response)
   \<Rightarrow> int
   \<Rightarrow> (tool list \<Rightarrow> chat_message list \<Rightarrow> reasoning_step list \<Rightarrow> chat_message list)
   \<Rightarrow> (string \<Rightarrow> bool \<Rightarrow> reasoning_step option)
   \<Rightarrow> (reasoning_step \<Rightarrow> string)
   \<Rightarrow> (string \<Rightarrow> tool list) option
   \<Rightarrow> error + engine" where
  "init tools chat achat max_iter formatter parser render tool_retriever =
    (if length tools > 0 \<and> tool_retriever \<noteq> None then Inl AmbiguousToolSource
     else Inr \<lparr> llm_chat = chat, llm_achat = achat, max_iterations = max_iter,
                react_chat_formatter = formatter, output_parser = parser,
                get_tools_closure =
                  (if length tools > 0 then (\<lambda>_. tools)
                   else (case tool_retriever of
                           Some retrieve \<Rightarrow> (\<lambda>msg. retrieve msg)
                         | None \<Rightarrow> (\<lambda>_. []))),
                get_content = render \<rparr>)"

text \<open>
  Modelled from the spec: \<^verbatim>\<open>adapt_to_async_tool\<close> wraps a tool into the uniform shape
  with both calling conventions; a tool of this model has that shape already.
\<close>

definition adapt_to_async_tool :: "tool \<Rightarrow> tool" where
  "adapt_to_async_tool t = t"

definition get_tools :: "engine \<Rightarrow> string \<Rightarrow> tool list" where
  "get_tools eng inp = map adapt_to_async_tool (get_tools_closure eng inp)"

text \<open>
  The dict comprehension \<^verbatim>\<open>{tool.metadata.get_name(): tool for tool in tools}\<close>: a later
  tool of the same name replaces an earlier one.
\<close>

definition tools_dict :: "tool list \<Rightarrow> string \<rightharpoonup> tool" where
  "tools_dict tools = fold (\<lambda>t m. m(name t \<mapsto> t)) tools Map.empty"

text \<open>\<^verbatim>\<open>initialize_step\<close>: fresh empty lists, the task's memory, a fresh step id.\<close>

definition initialize_step ::
  "string \<Rightarrow> task \<Rightarrow> chat_message list \<Rightarrow> task_step \<times> shared_state" where
  "initialize_step new_id tsk task_memory =
    (\<lparr> step_task_id = task_id tsk, step_id = new_id, step_input = Some (input tsk) \<rparr>,
     \<lparr> sources = [], current_reasoning = [], memory = task_memory \<rparr>)"

text \<open>
  Modelled from the spec: \<^verbatim>\<open>TaskStep.get_next_step\<close> builds the follow-up step of the same
  task, with the given step id and input override, sharing memory and step state.
\<close>

definition get_next_step :: "task_step \<Rightarrow> string \<Rightarrow> string option \<Rightarrow> task_step" where
  "get_next_step step new_id inp =
    \<lparr> step_task_id = step_task_id step, step_id = new_id, step_input = inp \<rparr>"

section \<open>The step executor\<close>

text \<open>
  \<^verbatim>\<open>_extract_reasoning_step\<close>, lines 157 to 176. The list \<^verbatim>\<open>current_reasoning\<close> of this
  function is a local of the call, not the shared trace. Printing under \<^verbatim>\<open>verbose\<close> is
  left out.
\<close>

definition extract_reasoning_step ::
  "engine \<Rightarrow> chat_response \<Rightarrow> bool \<Rightarrow> error + (string \<times> reasoning_step list \<times> bool)" where
  "extract_reasoning_step eng out is_streaming =
    (case content (message out) of
       None \<Rightarrow> Inl EmptyModelOutput
     | Some message_content \<Rightarrow>
         (case output_parser eng message_content is_streaming of
            None \<Rightarrow> Inl ReasoningParseError
          | Some reasoning_step \<Rightarrow>
              (let local_reasoning = [] @ [reasoning_step] in
               if is_done reasoning_step then Inr (message_content, local_reasoning, True)
               else if \<not> is_ActionReasoningStep reasoning_step then Inl UnexpectedStepType
               else Inr (message_content, local_reasoning, False))))"

text \<open>
  \<^verbatim>\<open>_process_actions\<close>, lines 185 to 214. The only write to shared state is the append to
  \<^verbatim>\<open>step.step_state["sources"]\<close> after the tool has returned; the reasoning steps go to the
  local list that is returned. The callback event around the call is left out.
\<close>

definition process_actions ::
  "engine \<Rightarrow> tool list \<Rightarrow> chat_response \<Rightarrow> bool \<Rightarrow> shared_state
   \<Rightarrow> (error + (reasoning_step list \<times> bool)) \<times> shared_state" where
  "process_actions eng tools out is_streaming st =
    (let td = tools_dict tools in
     case extract_reasoning_step eng out is_streaming of
       Inl e \<Rightarrow> (Inl e, st)
     | Inr (_, local_reasoning, done) \<Rightarrow>
         if done then (Inr (local_reasoning, True), st)
         else
           (let reasoning_step = last local_reasoning in
            case td (action reasoning_step) of
              None \<Rightarrow> (Inl UnknownTool, st)
            | Some tool \<Rightarrow>
                (case call tool (action_input reasoning_step) of
                   Inl exc \<Rightarrow> (Inl (ToolExecutionError exc), st)
                 | Inr tool_output \<Rightarrow>
                     (let st' = st\<lparr> sources := sources st @ [tool_output] \<rparr>;
                          observation_step = ObservationReasoningStep (str tool_output)
                      in (Inr (local_reasoning @ [observation_step], False), st')))))"

text \<open>\<^verbatim>\<open>_aprocess_actions\<close>, lines 223 to 250: the same with \<^verbatim>\<open>await tool.acall\<close>.\<close>

definition aprocess_actions ::
  "engine \<Rightarrow> tool list \<Rightarrow> chat_response \<Rightarrow> bool \<Rightarrow> shared_state
   \<Rightarrow> (error + (reasoning_step list \<times> bool)) \<times> shared_state" where
  "aprocess_actions eng tools out is_streaming st =
    (let td = tools_dict tools in
     case extract_reasoning_step eng out is_streaming of
       Inl e \<Rightarrow> (Inl e, st)
     | Inr (_, local_reasoning, done) \<Rightarrow>
         if done then (Inr (local_reasoning, True), st)
         else
           (let reasoning_step = last local_reasoning in
            case td (action reasoning_step) of
              None \<Rightarrow> (Inl UnknownTool, st)
            | Some tool \<Rightarrow>
                (case acall tool (action_input reasoning_step) of
                   Inl exc \<Rightarrow> (Inl (ToolExecutionError exc), st)
                 | Inr tool_output \<Rightarrow>
                     (let st' = st\<lparr> sources := sources st @ [tool_output] \<rparr>;
                          observation_step = ObservationReasoningStep (str tool_output)
                      in (Inr (local_reasoning @ [observation_step], False), st')))))"

text \<open>
  \<^verbatim>\<open>_get_response\<close>, lines 258 to 270. It receives the two lists and contains no
  assignment to either, so it takes them as values and returns only the response.
\<close>

definition get_response ::
  "engine \<Rightarrow> reasoning_step list \<Rightarrow> tool_output list \<Rightarrow> error + agent_chat_response" where
  "get_response eng reasoning srcs =
    (if length reasoning = 0 then Inl NoReasoningSteps
     else if int (length reasoning) = max_iterations eng then Inl MaxIterationsReached
     else
       (let answer =
              (if is_ResponseReasoningStep (last reasoning) then response (last reasoning)
               else get_content eng (last reasoning))
        in Inr \<lparr> response_str = answer, response_sources = srcs \<rparr>))"

text \<open>
  The model's answer to the prompt of one step: lines 345 to 353 of \<^verbatim>\<open>_run_step\<close>.
  \<^verbatim>\<open>step.memory.get()\<close> reads the turns of the memory.
\<close>

definition chat_response_of :: "engine \<Rightarrow> task \<Rightarrow> shared_state \<Rightarrow> chat_response" where
  "chat_response_of eng tsk st =
    llm_chat eng
      (react_chat_formatter eng (get_tools eng (input tsk)) (memory st) (current_reasoning st))"

definition achat_response_of :: "engine \<Rightarrow> task \<Rightarrow> shared_state \<Rightarrow> chat_response" where
  "achat_response_of eng tsk st =
    llm_achat eng
      (react_chat_formatter eng (get_tools eng (input tsk)) (memory st) (current_reasoning st))"

text \<open>
  The rest of \<^verbatim>\<open>_run_step\<close>, lines 355 to 382, from the processed actions on: extend the
  shared trace, assemble the response, write the memory, propose the follow-up step. The
  fresh \<^verbatim>\<open>uuid4\<close> is the argument \<open>new_id\<close>.
\<close>

definition finish_step ::
  "engine \<Rightarrow> string \<Rightarrow> task_step
   \<Rightarrow> (error + (reasoning_step list \<times> bool)) \<times> shared_state
   \<Rightarrow> (error + task_step_output) \<times> shared_state" where
  "finish_step eng new_id step processed =
    (case processed of
       (Inl e, st1) \<Rightarrow> (Inl e, st1)
     | (Inr (reasoning_steps, done), st1) \<Rightarrow>
         (let st2 = st1\<lparr> current_reasoning := current_reasoning st1 @ reasoning_steps \<rparr> in
          case get_response eng (current_reasoning st2) (sources st2) of
            Inl e \<Rightarrow> (Inl e, st2)
          | Inr agent_response \<Rightarrow>
              if done then
                (Inr \<lparr> step_output = agent_response, task_step = step, is_last = done,
                       next_steps = [] \<rparr>,
                 st2\<lparr> memory := memory st2 @
                        [\<lparr> role = ASSISTANT, content = Some (response_str agent_response) \<rparr>] \<rparr>)
              else
                (Inr \<lparr> step_output = agent_response, task_step = step, is_last = done,
                       next_steps = [get_next_step step new_id None] \<rparr>,
                 st2)))"

definition run_step_impl ::
  "engine \<Rightarrow> string \<Rightarrow> task_step \<Rightarrow> task \<Rightarrow> shared_state
   \<Rightarrow> (error + task_step_output) \<times> shared_state" where
  "run_step_impl eng new_id step tsk st =
    finish_step eng new_id step
      (process_actions eng (get_tools eng (input tsk)) (chat_response_of eng tsk st) False st)"

definition arun_step_impl ::
  "engine \<Rightarrow> string \<Rightarrow> task_step \<Rightarrow> task \<Rightarrow> shared_state
   \<Rightarrow> (error + task_step_output) \<times> shared_state" where
  "arun_step_impl eng new_id step tsk st =
    finish_step eng new_id step
      (aprocess_actions eng (get_tools eng (input tsk)) (achat_response_of eng tsk st) False st)"

text \<open>The public entry points, lines 430 to 449.\<close>

definition run_step ::
  "engine \<Rightarrow> string \<Rightarrow> task_step \<Rightarrow> task \<Rightarrow> shared_state
   \<Rightarrow> (error + task_step_output) \<times> shared_state" where
  "run_step eng new_id step tsk st = run_step_impl eng new_id step tsk st"

definition arun_step ::
  "engine \<Rightarrow> string \<Rightarrow> task_step \<Rightarrow> task \<Rightarrow> shared_state
   \<Rightarrow> (error + task_step_output) \<times> shared_state" where
  "arun_step eng new_id step tsk st = arun_step_impl eng new_id step tsk st"

definition stream_step ::
  "engine \<Rightarrow> task_step \<Rightarrow> task \<Rightarrow> shared_state
   \<Rightarrow> (error + task_step_output) \<times> shared_state" where
  "stream_step eng step tsk st = (Inl UnsupportedStreaming, st)"

definition astream_step ::
  "engine \<Rightarrow> task_step \<Rightarrow> task \<Rightarrow> shared_state
   \<Rightarrow> (error + task_step_output) \<times> shared_state" where
  "astream_step eng step tsk st = (Inl UnsupportedStreaming, st)"

text \<open>
  Two task step outputs are compared up to the freshly generated ids of the follow-up
  steps they propose: \<open>forget_step_ids\<close> blanks those ids.
\<close>

definition forget_step_ids :: "task_step_output \<Rightarrow> task_step_output" where
  "forget_step_ids out = out\<lparr> next_steps := map (\<lambda>s. s\<lparr> step_id := [] \<rparr>) (next_steps out) \<rparr>"

section \<open>A concrete engine\<close>

text \<open>
  The scenario of the specification's examples: a tool \<^verbatim>\<open>search\<close> that returns
  \<^verbatim>\<open>result-y\<close>, a tool \<^verbatim>\<open>broken\<close> that raises, and a model that asks for one action
  on an empty prompt and answers on any other. The engine is parameterised by the
  maximum iteration count and by the tool name the model asks for.
\<close>

definition ex_search_tool :: tool where
  "ex_search_tool =
    \<lparr> name = ''search'',
      call = (\<lambda>kwargs. Inr (ToolOutput ''result-y'')),
      acall = (\<lambda>kwargs. Inr (ToolOutput ''result-y'')) \<rparr>"

definition ex_broken_tool :: tool where
  "ex_broken_tool =
    \<lparr> name = ''broken'',
      call = (\<lambda>kwargs. Inl ''boom''),
      acall = (\<lambda>kwargs. Inl ''boom'') \<rparr>"

fun ex_render :: "reasoning_step \<Rightarrow> string" where
  "ex_render (ActionReasoningStep th a ai) = ''Action: '' @ a"
| "ex_render (ObservationReasoningStep ob) = ''Observation: '' @ ob"
| "ex_render (ResponseReasoningStep th r) = ''Response: '' @ r"

definition ex_formatter ::
  "tool list \<Rightarrow> chat_message list \<Rightarrow> reasoning_step list \<Rightarrow> chat_message list" where
  "ex_formatter tools history reasoning =
    history @ map (\<lambda>s. \<lparr> role = ASSISTANT, content = Some (ex_render s) \<rparr>) reasoning"

definition ex_chat :: "chat_message list \<Rightarrow> chat_response" where
  "ex_chat msgs =
    \<lparr> message = \<lparr> role = ASSISTANT,
                  content = Some (if length msgs = 0 then ''act'' else ''answer'') \<rparr> \<rparr>"

definition ex_parser :: "string \<Rightarrow> string \<Rightarrow> bool \<Rightarrow> reasoning_step option" where
  "ex_parser wanted txt is_streaming =
    (if txt = ''act'' then Some (ActionReasoningStep ''need a tool'' wanted [(''q'', ''x'')])
     else if txt = ''answer'' then Some (ResponseReasoningStep ''done'' ''final'')
     else None)"

definition ex_retriever :: "string \<Rightarrow> tool list" where
  "ex_retriever msg = [ex_search_tool]"

definition ex_engine :: "int \<Rightarrow> string \<Rightarrow> engine" where
  "ex_engine max_iter wanted =
    \<lparr> llm_chat = ex_chat, llm_achat = ex_chat, max_iterations = max_iter,
      react_chat_formatter = ex_formatter, output_parser = ex_parser wanted,
      get_tools_closure = (\<lambda>_. [ex_search_tool, ex_broken_tool]),
      get_content = ex_render \<rparr>"

definition ex_task :: task where
  "ex_task = \<lparr> task_id = ''task-1'', input = ''find x'' \<rparr>"

definition ex_step :: task_step where
  "ex_step = fst (initialize_step ''step-0'' ex_task [])"

definition ex_state :: shared_state where
  "ex_state = snd (initialize_step ''step-0'' ex_task [])"

definition ex_state1 :: shared_state where
  "ex_state1 =
    \<lparr> sources = [ToolOutput ''result-y''],
      current_reasoning =
        [ActionReasoningStep ''need a tool'' ''search'' [(''q'', ''x'')],
         ObservationReasoningStep ''result-y''],
      memory = [] \<rparr>"

definition ex_state2 :: shared_state where
  "ex_state2 =
    \<lparr> sources = [ToolOutput ''result-y''],
      current_reasoning =
        [ActionReasoningStep ''need a tool'' ''search'' [(''q'', ''x'')],
         ObservationReasoningStep ''result-y'',
         ResponseReasoningStep ''done'' ''final''],
      memory = [\<lparr> role = ASSISTANT, content = Some ''final'' \<rparr>] \<rparr>"

section \<open>Auxiliary facts\<close>

lemma fold_tools_None:
  "fold (\<lambda>t m. m(name t \<mapsto> t)) tools m a = None \<longleftrightarrow> m a = None \<and> a \<notin> name ` set tools"
  by (induction tools arbitrary: m) auto

lemma fold_tools_Some:
  "fold (\<lambda>t m. m(name t \<mapsto> t)) tools m a = Some tool
    \<Longrightarrow> m a = Some tool \<or> (tool \<in> set tools \<and> name tool = a)"
proof (induction tools arbitrary: m)
  case Nil
  then show ?case by simp
next
  case (Cons t ts)
  from Cons.prems have "fold (\<lambda>t m. m(name t \<mapsto> t)) ts (m(name t \<mapsto> t)) a = Some tool"
    by (simp only: fold.simps o_apply)
  from Cons.IH [OF this] show ?case
    by (auto split: if_splits)
qed

lemma tools_dict_None_iff: "tools_dict tools a = None \<longleftrightarrow> a \<notin> name ` set tools"
  unfolding tools_dict_def by (simp add: fold_tools_None)

lemma tools_dict_SomeD: "tools_dict tools a = Some tool \<Longrightarrow> tool \<in> set tools \<and> name tool = a"
  unfolding tools_dict_def using fold_tools_Some [of tools Map.empty a tool] by simp

lemma extract_action:
  assumes "content (message out) = Some mtext"
    and "output_parser eng mtext s = Some (ActionReasoningStep th a ai)"
  shows "extract_reasoning_step eng out s = Inr (mtext, [ActionReasoningStep th a ai], False)"
  using assms by (simp add: extract_reasoning_step_def)

lemma extract_response:
  assumes "content (message out) = Some mtext"
    and "output_parser eng mtext s = Some (ResponseReasoningStep th r)"
  shows "extract_reasoning_step eng out s = Inr (mtext, [ResponseReasoningStep th r], True)"
  using assms by (simp add: extract_reasoning_step_def)

lemma process_unknown:
  assumes "content (message out) = Some mtext"
    and "output_parser eng mtext s = Some (ActionReasoningStep th a ai)"
    and "a \<notin> name ` set tools"
  shows "process_actions eng tools out s st = (Inl UnknownTool, st)"
proof -
  have "tools_dict tools a = None"
    using assms(3) by (simp add: tools_dict_None_iff)
  then show ?thesis
    by (simp add: process_actions_def Let_def extract_action [OF assms(1,2)])
qed

lemma process_tool_error:
  assumes "content (message out) = Some mtext"
    and "output_parser eng mtext s = Some (ActionReasoningStep th a ai)"
    and "tools_dict tools a = Some tool"
    and "call tool ai = Inl exc"
  shows "process_actions eng tools out s st = (Inl (ToolExecutionError exc), st)"
  using assms(3,4) by (simp add: process_actions_def Let_def extract_action [OF assms(1,2)])

lemma process_tool_ok:
  assumes "content (message out) = Some mtext"
    and "output_parser eng mtext s = Some (ActionReasoningStep th a ai)"
    and "tools_dict tools a = Some tool"
    and "call tool ai = Inr tout"
  shows "process_actions eng tools out s st =
    (Inr ([ActionReasoningStep th a ai, ObservationReasoningStep (str tout)], False),
     st\<lparr> sources := sources st @ [tout] \<rparr>)"
  using assms(3,4) by (simp add: process_actions_def Let_def extract_action [OF assms(1,2)])

lemma process_response:
  assumes "content (message out) = Some mtext"
    and "output_parser eng mtext s = Some (ResponseReasoningStep th r)"
  shows "process_actions eng tools out s st = (Inr ([ResponseReasoningStep th r], True), st)"
  by (simp add: process_actions_def Let_def extract_response [OF assms])

lemma process_actions_success:
  assumes "process_actions eng tools out s st = (Inr (rs, d), st1)"
  shows "rs \<noteq> [] \<and> current_reasoning st1 = current_reasoning st"
  using assms
  by (auto simp: process_actions_def extract_reasoning_step_def Let_def
      split: option.splits sum.splits if_splits)

lemma aprocess_actions_eq:
  assumes "\<forall>t\<in>set tools. acall t = call t"
  shows "aprocess_actions eng tools out s st = process_actions eng tools out s st"
proof (cases "extract_reasoning_step eng out s")
  case (Inl e)
  then show ?thesis by (simp add: aprocess_actions_def process_actions_def)
next
  case (Inr triple)
  obtain mtext rs d where triple: "triple = (mtext, rs, d)"
    by (cases triple) auto
  show ?thesis
  proof (cases "tools_dict tools (action (last rs))")
    case None
    then show ?thesis
      by (simp add: aprocess_actions_def process_actions_def Let_def Inr triple)
  next
    case (Some tool)
    then have "tool \<in> set tools" by (simp add: tools_dict_SomeD)
    with assms have "acall tool = call tool" by blast
    with Some show ?thesis
      by (simp add: aprocess_actions_def process_actions_def Let_def Inr triple)
  qed
qed

lemma finish_step_Inl: "finish_step eng i step (Inl e, st) = (Inl e, st)"
  by (simp add: finish_step_def)

lemma finish_step_lists:
  "sources (snd (finish_step eng i step (Inr (rs, d), st1))) = sources st1 \<and>
   current_reasoning (snd (finish_step eng i step (Inr (rs, d), st1))) =
     current_reasoning st1 @ rs"
  by (simp add: finish_step_def Let_def split: sum.splits)

lemma finish_step_success:
  assumes "finish_step eng i step (Inr (rs, d), st1) = (Inr out, st')"
  shows "current_reasoning st' = current_reasoning st1 @ rs"
  using finish_step_lists [of eng i step rs d st1] assms by simp

lemma finish_step_ids:
  "snd (finish_step eng i1 step p) = snd (finish_step eng i2 step p) \<and>
   map_sum id forget_step_ids (fst (finish_step eng i1 step p)) =
     map_sum id forget_step_ids (fst (finish_step eng i2 step p))"
  by (cases p)
    (auto simp: finish_step_def Let_def forget_step_ids_def get_next_step_def
      split: sum.splits prod.splits)

lemma get_response_succeeds:
  assumes "reasoning \<noteq> []" and "int (length reasoning) \<noteq> max_iterations eng"
  shows "\<exists>resp. get_response eng reasoning srcs = Inr resp"
  using assms by (simp add: get_response_def Let_def)

lemma finish_step_done:
  assumes "get_response eng (current_reasoning st1 @ rs) (sources st1) = Inr resp"
  shows "fst (finish_step eng i step (Inr (rs, True), st1)) =
    Inr \<lparr> step_output = resp, task_step = step, is_last = True, next_steps = [] \<rparr>"
  using assms by (simp add: finish_step_def Let_def)

lemma finish_step_not_done:
  assumes "get_response eng (current_reasoning st1 @ rs) (sources st1) = Inr resp"
  shows "fst (finish_step eng i step (Inr (rs, False), st1)) =
    Inr \<lparr> step_output = resp, task_step = step, is_last = False,
          next_steps = [get_next_step step i None] \<rparr>"
  using assms by (simp add: finish_step_def Let_def)

lemma finish_step_max_iterations:
  assumes "rs \<noteq> []"
    and "int (length (current_reasoning st1 @ rs)) = max_iterations eng"
  shows "fst (finish_step eng i step (Inr (rs, d), st1)) = Inl MaxIterationsReached"
  using assms by (simp add: finish_step_def Let_def get_response_def)

lemmas step_defs =
  run_step_def run_step_impl_def arun_step_def arun_step_impl_def

lemmas ex_defs =
  ex_engine_def ex_search_tool_def ex_broken_tool_def ex_formatter_def ex_chat_def
  ex_parser_def ex_retriever_def ex_task_def ex_step_def ex_state_def ex_state1_def
  ex_state2_def initialize_step_def get_tools_def adapt_to_async_tool_def
  chat_response_of_def achat_response_of_def

lemmas eval_defs =
  step_defs process_actions_def aprocess_actions_def extract_reasoning_step_def
  finish_step_def get_response_def tools_dict_def get_next_step_def Let_def

section \<open>Unknown tools and failing tools\<close>

text \<open>
  Claim C1, as the code has it. When the model output parses to an action whose tool name
  is not among the names of the resolved tools, \<open>run_step\<close> fails with \<open>UnknownTool\<close> and
  the shared state is exactly the state before the step run: the parsed action step lives
  only in the step-local list, so nothing is appended to the shared \<open>current_reasoning\<close>,
  no observation is appended and no entry is added to \<open>sources\<close>.
\<close>

theorem unknown_tool_leaves_state:
  assumes "content (message (chat_response_of eng tsk st)) = Some mtext"
    and "output_parser eng mtext False = Some (ActionReasoningStep th a ai)"
    and "a \<notin> name ` set (get_tools eng (input tsk))"
  shows "run_step eng new_id step tsk st = (Inl UnknownTool, st)"
  by (simp add: run_step_def run_step_impl_def process_unknown [OF assms] finish_step_Inl)

theorem unknown_tool_leaves_state_witness:
  "run_step (ex_engine 10 ''nonexistent'') ''step-1'' ex_step ex_task ex_state =
    (Inl UnknownTool, ex_state)"
  using unknown_tool_leaves_state [where eng = "ex_engine 10 ''nonexistent''"
      and tsk = ex_task and st = ex_state and mtext = "''act''" and th = "''need a tool''"
      and a = "''nonexistent''" and ai = "[(''q'', ''x'')]" and new_id = "''step-1''"
      and step = ex_step]
  by (simp add: ex_defs)

text \<open>
  Claim C1 as stated says that the action step was appended to \<open>current_reasoning\<close>. At
  the concrete engine, where the model asks for the tool \<^verbatim>\<open>nonexistent\<close>, the step run
  fails with \<open>UnknownTool\<close> and the shared trace is not the old trace followed by the
  action step.
\<close>

theorem unknown_tool_action_appended_counterexample:
  "fst (run_step (ex_engine 10 ''nonexistent'') ''step-1'' ex_step ex_task ex_state) =
     Inl UnknownTool \<and>
   current_reasoning
     (snd (run_step (ex_engine 10 ''nonexistent'') ''step-1'' ex_step ex_task ex_state)) \<noteq>
     current_reasoning ex_state @
       [ActionReasoningStep ''need a tool'' ''nonexistent'' [(''q'', ''x'')]]"
proof -
  have "process_actions (ex_engine 10 ''nonexistent'')
      (get_tools (ex_engine 10 ''nonexistent'') (input ex_task))
      (chat_response_of (ex_engine 10 ''nonexistent'') ex_task ex_state) False ex_state =
      (Inl UnknownTool, ex_state)"
    by (rule process_unknown [where mtext = "''act''" and th = "''need a tool''"
          and a = "''nonexistent''" and ai = "[(''q'', ''x'')]"])
      (simp_all add: ex_defs)
  then show ?thesis
    by (simp add: run_step_def run_step_impl_def finish_step_Inl)
qed

text \<open>
  Claim C10. When the resolved tool's call raises, the error propagates and the shared
  state is exactly the state before the step run: nothing is appended to \<open>sources\<close> and
  nothing to \<open>current_reasoning\<close>, not even the parsed action step.
\<close>

theorem tool_exception_leaves_state:
  assumes "content (message (chat_response_of eng tsk st)) = Some mtext"
    and "output_parser eng mtext False = Some (ActionReasoningStep th a ai)"
    and "tools_dict (get_tools eng (input tsk)) a = Some tool"
    and "call tool ai = Inl exc"
  shows "run_step eng new_id step tsk st = (Inl (ToolExecutionError exc), st)"
  by (simp add: run_step_def run_step_impl_def process_tool_error [OF assms] finish_step_Inl)

theorem tool_exception_leaves_state_witness:
  "run_step (ex_engine 10 ''broken'') ''step-1'' ex_step ex_task ex_state =
    (Inl (ToolExecutionError ''boom''), ex_state)"
  using tool_exception_leaves_state [where eng = "ex_engine 10 ''broken''"
      and tsk = ex_task and st = ex_state and mtext = "''act''" and th = "''need a tool''"
      and a = "''broken''" and ai = "[(''q'', ''x'')]" and tool = ex_broken_tool
      and exc = "''boom''" and new_id = "''step-1''" and step = ex_step]
  by (simp add: ex_defs tools_dict_def)

section \<open>Blocking and suspending form\<close>

text \<open>
  Claim C2. Given identical model responses (\<open>achat\<close> answers as \<open>chat\<close>) and identical
  tool outputs (\<open>acall\<close> answers as \<open>call\<close> on every resolved tool), \<open>arun_step\<close> and
  \<open>run_step\<close> leave the same shared state (sources, current reasoning, memory) and return
  equal results apart from the freshly generated ids of the follow-up steps.
\<close>

theorem run_step_arun_step_agree:
  assumes "llm_achat eng = llm_chat eng"
    and "\<forall>t\<in>set (get_tools eng (input tsk)). acall t = call t"
  shows "snd (arun_step eng id_a step tsk st) = snd (run_step eng id_s step tsk st) \<and>
    map_sum id forget_step_ids (fst (arun_step eng id_a step tsk st)) =
    map_sum id forget_step_ids (fst (run_step eng id_s step tsk st))"
proof -
  have chat: "achat_response_of eng tsk st = chat_response_of eng tsk st"
    by (simp add: achat_response_of_def chat_response_of_def assms(1))
  show ?thesis
    unfolding step_defs chat aprocess_actions_eq [OF assms(2)]
    by (rule finish_step_ids)
qed

theorem run_step_arun_step_agree_witness:
  "snd (arun_step (ex_engine 10 ''search'') ''id-a'' ex_step ex_task ex_state) =
     snd (run_step (ex_engine 10 ''search'') ''id-s'' ex_step ex_task ex_state) \<and>
   map_sum id forget_step_ids
     (fst (arun_step (ex_engine 10 ''search'') ''id-a'' ex_step ex_task ex_state)) =
   map_sum id forget_step_ids
     (fst (run_step (ex_engine 10 ''search'') ''id-s'' ex_step ex_task ex_state))"
  using run_step_arun_step_agree [where eng = "ex_engine 10 ''search''" and tsk = ex_task
      and st = ex_state and step = ex_step and id_a = "''id-a''" and id_s = "''id-s''"]
  by (simp add: ex_defs)

section \<open>Response assembly\<close>

text \<open>
  Claim C3. Response assembly on a non-empty trace whose length equals the configured
  maximum iteration count fails with \<open>MaxIterationsReached\<close>, whatever the last entry
  is; so it does when the trace has hit the cap with no terminal step yet.
\<close>

theorem max_iterations_reached:
  assumes "reasoning \<noteq> []"
    and "int (length reasoning) = max_iterations eng"
  shows "get_response eng reasoning srcs = Inl MaxIterationsReached"
  using assms by (simp add: get_response_def)

theorem max_iterations_reached_witness:
  "get_response (ex_engine 2 ''search'') (current_reasoning ex_state1) (sources ex_state1) =
    Inl MaxIterationsReached"
  using max_iterations_reached [where eng = "ex_engine 2 ''search''"
      and reasoning = "current_reasoning ex_state1" and srcs = "sources ex_state1"]
  by (simp add: ex_defs)

text \<open>
  Claim C7. On a non-empty trace whose length is not the maximum iteration count, the
  assembled response text is the \<open>response\<close> field of the last entry when that entry is
  a response step, and the rendered content of the last entry otherwise; the response
  carries the sources it was given. The function returns no state: its body has no write.
\<close>

theorem get_response_text:
  assumes "reasoning \<noteq> []"
    and "int (length reasoning) \<noteq> max_iterations eng"
  shows "get_response eng reasoning srcs =
    Inr \<lparr> response_str =
            (if is_ResponseReasoningStep (last reasoning) then response (last reasoning)
             else get_content eng (last reasoning)),
          response_sources = srcs \<rparr>"
  using assms by (simp add: get_response_def Let_def)

theorem get_response_text_witness:
  "get_response (ex_engine 10 ''search'') (current_reasoning ex_state2) (sources ex_state2) =
     Inr \<lparr> response_str = ''final'', response_sources = [ToolOutput ''result-y''] \<rparr> \<and>
   get_response (ex_engine 10 ''search'') (current_reasoning ex_state1) (sources ex_state1) =
     Inr \<lparr> response_str = ''Observation: result-y'',
           response_sources = [ToolOutput ''result-y''] \<rparr>"
  using get_response_text [where eng = "ex_engine 10 ''search''"
      and reasoning = "current_reasoning ex_state2" and srcs = "sources ex_state2"]
    get_response_text [where eng = "ex_engine 10 ''search''"
      and reasoning = "current_reasoning ex_state1" and srcs = "sources ex_state1"]
  by (simp add: ex_defs)

section \<open>Outcome of a step run\<close>

text \<open>
  Claim C4 as stated fails where the trace, after the appends of the step, has exactly
  the maximum iteration count of entries. With a maximum of 2 the model asks for the
  resolvable tool \<^verbatim>\<open>search\<close>, the call succeeds, and the step run fails with
  \<open>MaxIterationsReached\<close> instead of returning one follow-up step.
\<close>

theorem action_step_follow_up_counterexample:
  "content (message (chat_response_of (ex_engine 2 ''search'') ex_task ex_state)) =
     Some ''act'' \<and>
   output_parser (ex_engine 2 ''search'') ''act'' False =
     Some (ActionReasoningStep ''need a tool'' ''search'' [(''q'', ''x'')]) \<and>
   tools_dict (get_tools (ex_engine 2 ''search'') (input ex_task)) ''search'' =
     Some ex_search_tool \<and>
   call ex_search_tool [(''q'', ''x'')] = Inr (ToolOutput ''result-y'') \<and>
   fst (run_step (ex_engine 2 ''search'') ''step-1'' ex_step ex_task ex_state) =
     Inl MaxIterationsReached"
  by (simp add: ex_defs eval_defs)

text \<open>
  Claim C4, amended. Provided the trace length after the appends of the step differs
  from the maximum iteration count: a response parse makes \<open>run_step\<close> return
  \<open>is_last = True\<close> and no follow-up step; an action parse whose tool is in the resolved
  set and whose call succeeds makes it return \<open>is_last = False\<close> and exactly one
  follow-up step.
\<close>

theorem run_step_outcome:
  assumes "content (message (chat_response_of eng tsk st)) = Some mtext"
    and "output_parser eng mtext False = Some rstep"
  shows "(is_ResponseReasoningStep rstep \<and>
          int (length (current_reasoning st)) + 1 \<noteq> max_iterations eng
          \<longrightarrow> (\<exists>out. fst (run_step eng new_id step tsk st) = Inr out \<and>
                 is_last out \<and> next_steps out = [])) \<and>
         (is_ActionReasoningStep rstep \<and>
          tools_dict (get_tools eng (input tsk)) (action rstep) = Some tool \<and>
          call tool (action_input rstep) = Inr tout \<and>
          int (length (current_reasoning st)) + 2 \<noteq> max_iterations eng
          \<longrightarrow> (\<exists>out. fst (run_step eng new_id step tsk st) = Inr out \<and>
                 \<not> is_last out \<and> length (next_steps out) = 1))"
proof (intro conjI impI)
  assume a: "is_ResponseReasoningStep rstep \<and>
    int (length (current_reasoning st)) + 1 \<noteq> max_iterations eng"
  then obtain th r where rstep: "rstep = ResponseReasoningStep th r"
    by (cases rstep) auto
  have p: "process_actions eng (get_tools eng (input tsk)) (chat_response_of eng tsk st)
      False st = (Inr ([ResponseReasoningStep th r], True), st)"
    using assms(2) by (intro process_response [OF assms(1)]) (simp add: rstep)
  have "int (length (current_reasoning st @ [ResponseReasoningStep th r])) \<noteq>
      max_iterations eng"
    using a by simp
  then obtain resp where "get_response eng
      (current_reasoning st @ [ResponseReasoningStep th r]) (sources st) = Inr resp"
    using get_response_succeeds [of "current_reasoning st @ [ResponseReasoningStep th r]" eng]
    by auto
  from finish_step_done [OF this] show "\<exists>out. fst (run_step eng new_id step tsk st) = Inr out \<and>
      is_last out \<and> next_steps out = []"
    by (simp add: run_step_def run_step_impl_def p)
next
  assume a: "is_ActionReasoningStep rstep \<and>
    tools_dict (get_tools eng (input tsk)) (action rstep) = Some tool \<and>
    call tool (action_input rstep) = Inr tout \<and>
    int (length (current_reasoning st)) + 2 \<noteq> max_iterations eng"
  then obtain th a' ai where rstep: "rstep = ActionReasoningStep th a' ai"
    by (cases rstep) auto
  let ?rs = "[ActionReasoningStep th a' ai, ObservationReasoningStep (str tout)]"
  let ?st1 = "st\<lparr> sources := sources st @ [tout] \<rparr>"
  from a have t: "tools_dict (get_tools eng (input tsk)) a' = Some tool"
    and c: "call tool ai = Inr tout"
    and n: "int (length (current_reasoning st)) + 2 \<noteq> max_iterations eng"
    by (simp_all add: rstep)
  from assms(2) have pr: "output_parser eng mtext False = Some (ActionReasoningStep th a' ai)"
    by (simp add: rstep)
  have p: "process_actions eng (get_tools eng (input tsk)) (chat_response_of eng tsk st)
      False st = (Inr (?rs, False), ?st1)"
    by (rule process_tool_ok [OF assms(1) pr t c])
  have "int (length (current_reasoning ?st1 @ ?rs)) \<noteq> max_iterations eng"
    using n by simp
  then obtain resp where
    "get_response eng (current_reasoning ?st1 @ ?rs) (sources ?st1) = Inr resp"
    using get_response_succeeds [of "current_reasoning ?st1 @ ?rs" eng] by auto
  from finish_step_not_done [OF this]
  show "\<exists>out. fst (run_step eng new_id step tsk st) = Inr out \<and>
      \<not> is_last out \<and> length (next_steps out) = 1"
    by (simp add: run_step_def run_step_impl_def p)
qed

theorem run_step_outcome_witness:
  "(\<exists>out. fst (run_step (ex_engine 10 ''search'') ''step-2'' ex_step ex_task ex_state1) =
      Inr out \<and> is_last out \<and> next_steps out = []) \<and>
   (\<exists>out. fst (run_step (ex_engine 10 ''search'') ''step-1'' ex_step ex_task ex_state) =
      Inr out \<and> \<not> is_last out \<and> length (next_steps out) = 1)"
  using run_step_outcome [where eng = "ex_engine 10 ''search''" and tsk = ex_task
      and st = ex_state1 and mtext = "''answer''"
      and rstep = "ResponseReasoningStep ''done'' ''final''"
      and new_id = "''step-2''" and step = ex_step]
    run_step_outcome [where eng = "ex_engine 10 ''search''" and tsk = ex_task
      and st = ex_state and mtext = "''act''"
      and rstep = "ActionReasoningStep ''need a tool'' ''search'' [(''q'', ''x'')]"
      and tool = ex_search_tool and tout = "ToolOutput ''result-y''"
      and new_id = "''step-1''" and step = ex_step]
  by (simp add: ex_defs tools_dict_def)

text \<open>
  Claim C5. Start from the state of \<open>initialize_step\<close>. The model first returns an action
  naming a resolvable tool, the tool returns an output, and on the trace of that first
  run the model returns a terminal response. After the two step runs \<open>sources\<close> is the
  single tool output and \<open>current_reasoning\<close> is the action, the observation of the
  output's string form, and the response, in that order.
\<close>

theorem two_step_scenario:
  assumes "st0 = snd (initialize_step id0 tsk mem)"
    and "content (message (chat_response_of eng tsk st0)) = Some txt1"
    and "output_parser eng txt1 False = Some (ActionReasoningStep th a ai)"
    and "tools_dict (get_tools eng (input tsk)) a = Some tool"
    and "call tool ai = Inr tout"
    and "st1 = snd (run_step eng id1 step tsk st0)"
    and "content (message (chat_response_of eng tsk st1)) = Some txt2"
    and "output_parser eng txt2 False = Some (ResponseReasoningStep th2 r)"
    and "st2 = snd (run_step eng id2 step' tsk st1)"
  shows "sources st2 = [tout] \<and>
    current_reasoning st2 =
      [ActionReasoningStep th a ai, ObservationReasoningStep (str tout),
       ResponseReasoningStep th2 r]"
proof -
  have init: "sources st0 = [] \<and> current_reasoning st0 = []"
    by (simp add: assms(1) initialize_step_def)
  have first: "sources st1 = [tout] \<and>
      current_reasoning st1 =
        [ActionReasoningStep th a ai, ObservationReasoningStep (str tout)]"
    using finish_step_lists [of eng id1 step
        "[ActionReasoningStep th a ai, ObservationReasoningStep (str tout)]" False
        "st0\<lparr> sources := sources st0 @ [tout] \<rparr>"] init
    by (simp add: assms(6) run_step_def run_step_impl_def
        process_tool_ok [OF assms(2,3,4,5)])
  show ?thesis
    using finish_step_lists [of eng id2 step' "[ResponseReasoningStep th2 r]" True st1] first
    by (simp add: assms(9) run_step_def run_step_impl_def process_response [OF assms(7,8)])
qed

theorem two_step_scenario_witness:
  "snd (run_step (ex_engine 10 ''search'') ''step-1'' ex_step ex_task ex_state) = ex_state1 \<and>
   sources (snd (run_step (ex_engine 10 ''search'') ''step-2''
      (get_next_step ex_step ''step-1'' None) ex_task ex_state1)) =
     [ToolOutput ''result-y''] \<and>
   current_reasoning (snd (run_step (ex_engine 10 ''search'') ''step-2''
      (get_next_step ex_step ''step-1'' None) ex_task ex_state1)) =
     [ActionReasoningStep ''need a tool'' ''search'' [(''q'', ''x'')],
      ObservationReasoningStep ''result-y'',
      ResponseReasoningStep ''done'' ''final'']"
proof -
  let ?E = "ex_engine 10 ''search''"
  have s0: "ex_state = snd (initialize_step ''step-0'' ex_task [])"
    by (simp add: ex_state_def)
  have c1: "content (message (chat_response_of ?E ex_task ex_state)) = Some ''act''"
    by (simp add: ex_defs)
  have p1: "output_parser ?E ''act'' False =
      Some (ActionReasoningStep ''need a tool'' ''search'' [(''q'', ''x'')])"
    by (simp add: ex_defs)
  have t1: "tools_dict (get_tools ?E (input ex_task)) ''search'' = Some ex_search_tool"
    by (simp add: ex_defs tools_dict_def)
  have k1: "call ex_search_tool [(''q'', ''x'')] = Inr (ToolOutput ''result-y'')"
    by (simp add: ex_defs)
  have s1: "snd (run_step ?E ''step-1'' ex_step ex_task ex_state) = ex_state1"
    by (simp add: ex_defs eval_defs)
  have c2: "content (message (chat_response_of ?E ex_task ex_state1)) = Some ''answer''"
    by (simp add: ex_defs)
  have p2: "output_parser ?E ''answer'' False = Some (ResponseReasoningStep ''done'' ''final'')"
    by (simp add: ex_defs)
  from two_step_scenario [OF s0 c1 p1 t1 k1 s1 [symmetric] c2 p2 refl] s1
  show ?thesis by simp
qed

text \<open>
  Claim C8. A successful step run makes the shared \<open>current_reasoning\<close> strictly longer
  and keeps every earlier entry unchanged at its index: the old trace is a prefix of the
  new one.
\<close>

theorem current_reasoning_monotonic:
  assumes "run_step eng new_id step tsk st = (Inr out, st')"
  shows "length (current_reasoning st) < length (current_reasoning st') \<and>
    take (length (current_reasoning st)) (current_reasoning st') = current_reasoning st \<and>
    (\<forall>i < length (current_reasoning st).
       current_reasoning st' ! i = current_reasoning st ! i)"
proof -
  obtain res st1 where p: "process_actions eng (get_tools eng (input tsk))
      (chat_response_of eng tsk st) False st = (res, st1)"
    by (cases "process_actions eng (get_tools eng (input tsk))
      (chat_response_of eng tsk st) False st") auto
  from assms have f: "finish_step eng new_id step (res, st1) = (Inr out, st')"
    by (simp add: run_step_def run_step_impl_def p)
  then obtain rs d where res: "res = Inr (rs, d)"
    by (cases res) (auto simp: finish_step_Inl)
  from process_actions_success [OF p [unfolded res]]
  have rs: "rs \<noteq> []" and same: "current_reasoning st1 = current_reasoning st"
    by simp_all
  from finish_step_success [OF f [unfolded res]] same
  have "current_reasoning st' = current_reasoning st @ rs"
    by simp
  with rs show ?thesis
    by (simp add: nth_append)
qed

theorem current_reasoning_monotonic_witness:
  "length (current_reasoning ex_state1) < length (current_reasoning ex_state2) \<and>
   current_reasoning ex_state2 ! 0 = current_reasoning ex_state1 ! 0 \<and>
   current_reasoning ex_state2 ! 1 = current_reasoning ex_state1 ! 1"
proof -
  have "run_step (ex_engine 10 ''search'') ''step-2'' ex_step ex_task ex_state1 =
    (Inr \<lparr> step_output =
             \<lparr> response_str = ''final'', response_sources = [ToolOutput ''result-y''] \<rparr>,
           task_step = ex_step, is_last = True, next_steps = [] \<rparr>,
     ex_state2)"
    by (simp add: ex_defs eval_defs)
  from current_reasoning_monotonic [OF this] show ?thesis
    by (simp add: ex_defs)
qed

section \<open>Construction and streaming\<close>

text \<open>
  Claim C6. Construction with a fixed tool list (a non-empty \<^verbatim>\<open>tools\<close> argument, the
  constructor's own test) and a retriever fails with \<open>AmbiguousToolSource\<close>, so no engine
  exists to run a step; construction with neither (an empty list and no retriever)
  yields an engine whose resolved tool set is empty for every input.
\<close>

theorem init_tool_source:
  "(tools \<noteq> [] \<longrightarrow>
      init tools chat achat max_iter formatter parser render (Some retrieve) =
        Inl AmbiguousToolSource) \<and>
   (\<exists>eng. init [] chat achat max_iter formatter parser render None = Inr eng \<and>
      (\<forall>inp. get_tools eng inp = []))"
  by (simp add: init_def get_tools_def)

theorem init_tool_source_witness:
  "init [ex_search_tool] ex_chat ex_chat 10 ex_formatter (ex_parser ''search'') ex_render
     (Some ex_retriever) = Inl AmbiguousToolSource"
  using init_tool_source [where tools = "[ex_search_tool]" and chat = ex_chat
      and achat = ex_chat and max_iter = 10 and formatter = ex_formatter
      and parser = "ex_parser ''search''" and render = ex_render and retrieve = ex_retriever]
  by simp

text \<open>
  Claim C9. Both streaming entry points fail with \<open>UnsupportedStreaming\<close> for every step,
  task and state; they return no stream and leave the shared state as it was.
\<close>

theorem streaming_unsupported:
  "stream_step eng step tsk st = (Inl UnsupportedStreaming, st) \<and>
   astream_step eng step tsk st = (Inl UnsupportedStreaming, st)"
  by (simp add: stream_step_def astream_step_def)

end
